theory Spec2Isabelle
  imports Complex_Main "HOL-Library.Multiset"
begin

section \<open>Labels, errors and numeric results\<close>

text \<open>
  The program \<^verbatim>\<open>verify_metrics.py\<close> reads two columns of labels and hands them to
  scikit-learn. Labels are modelled as strings. A Python float is modelled by the exact
  rational that it rounds: \<open>Finite q\<close> stands for the double nearest to \<open>q\<close>. Every
  metric that the program returns is one quotient of two counts, rounded once by the
  division, and \<open>q\<close> is that quotient; \<open>round_to_double\<close> below gives the double
  itself. The only special value that can arise is NaN, the mean of an empty array.
\<close>

type_synonym label = string

datatype pyfloat = Finite rat | NaN

text \<open>
  Every exception that scikit-learn raises on label lists is a \<^verbatim>\<open>ValueError\<close>; the
  constructors record which check raised it.
  \<^item> \<open>InconsistentLength\<close>: \<^verbatim>\<open>check_consistent_length\<close>, the two lists differ in length;
  \<^item> \<open>NoLabels\<close>: \<^verbatim>\<open>confusion_matrix\<close>, "'labels' should contains at least one label";
  \<^item> \<open>NoLabelInYTrue\<close>: \<^verbatim>\<open>confusion_matrix\<close>, "At least one label specified must be in y_true";
  \<^item> \<open>PosLabelInvalid\<close>: "pos_label=... is not a valid label";
  \<^item> \<open>TargetNotBinary\<close>: "Target is multiclass but average='binary'".
\<close>

datatype error =
    InconsistentLength
  | NoLabels
  | NoLabelInYTrue
  | PosLabelInvalid
  | TargetNotBinary

record confusion_counts =
  true_positive :: nat
  true_negative :: nat
  false_positive :: nat
  false_negative :: nat

record metrics =
  accuracy :: pyfloat
  precision :: pyfloat
  recall :: pyfloat
  f1_score :: pyfloat
  confusion_matrix :: confusion_counts
  total_samples :: nat
  tp :: nat
  tn :: nat
  fp :: nat
  fn :: nat

section \<open>The scikit-learn functions that the program calls\<close>

text \<open>
  \<^verbatim>\<open>type_of_target\<close> on a one-dimensional array of strings: more than two distinct
  values make the target multiclass, otherwise (also for the empty array) it is binary.
\<close>

datatype target_type = Binary | Multiclass

definition type_of_target :: "label list \<Rightarrow> target_type" where
  "type_of_target y = (if length (remdups y) > 2 then Multiclass else Binary)"

text \<open>
  \<^verbatim>\<open>unique_labels(y_true, y_pred)\<close>: the distinct labels of both arrays. The library
  sorts them; the callers below only test membership and take the length.
\<close>

definition unique_labels :: "label list \<Rightarrow> label list \<Rightarrow> label list" where
  "unique_labels y_true y_pred = remdups (y_true @ y_pred)"

text \<open>
  \<^verbatim>\<open>_check_targets\<close>: the lengths must agree; a binary/multiclass mix is multiclass;
  two binary arrays whose union has more than two values are multiclass.
\<close>

definition check_targets :: "label list \<Rightarrow> label list \<Rightarrow> error + target_type" where
  "check_targets y_true y_pred =
     (if length y_true \<noteq> length y_pred then Inl InconsistentLength
      else if type_of_target y_true = Multiclass \<or> type_of_target y_pred = Multiclass
        then Inr Multiclass
      else if length (unique_labels y_true y_pred) > 2 then Inr Multiclass
      else Inr Binary)"

text \<open>
  \<^verbatim>\<open>confusion_matrix(y_true, y_pred, labels=labels)\<close>. The labels are turned into indices
  by the dictionary \<^verbatim>\<open>{y: x for x, y in enumerate(labels)}\<close> (a later duplicate
  overwrites an earlier one), a value that is no label gets the index
  \<^verbatim>\<open>n_labels + 1\<close>, and the pairs with an index out of range are dropped before
  counting.
\<close>

definition label_to_ind :: "label list \<Rightarrow> (label \<rightharpoonup> nat)" where
  "label_to_ind labels = fold (\<lambda>(x, y) m. m(y \<mapsto> x)) (enumerate 0 labels) Map.empty"

definition to_index :: "(label \<rightharpoonup> nat) \<Rightarrow> nat \<Rightarrow> label \<Rightarrow> nat" where
  "to_index m n_labels x = (case m x of Some i \<Rightarrow> i | None \<Rightarrow> n_labels + 1)"

definition kept_pairs :: "label list \<Rightarrow> label list \<Rightarrow> label list \<Rightarrow> (nat \<times> nat) list" where
  "kept_pairs y_true y_pred labels =
     (let n_labels = length labels;
          m = label_to_ind labels
      in filter (\<lambda>(t, p). p < n_labels \<and> t < n_labels)
           (zip (map (to_index m n_labels) y_true) (map (to_index m n_labels) y_pred)))"

definition sk_confusion_matrix ::
  "label list \<Rightarrow> label list \<Rightarrow> label list \<Rightarrow> error + nat list list" where
  "sk_confusion_matrix y_true y_pred labels =
     (case check_targets y_true y_pred of
        Inl e \<Rightarrow> Inl e
      | Inr y_type \<Rightarrow>
          let n_labels = length labels in
          if n_labels = 0 then Inl NoLabels
          else if y_true = [] then Inr (replicate n_labels (replicate n_labels 0))
          else if set y_true \<inter> set labels = {} then Inl NoLabelInYTrue
          else Inr (map (\<lambda>i. map (\<lambda>j. count_list (kept_pairs y_true y_pred labels) (i, j))
                               [0..<n_labels])
                        [0..<n_labels]))"

text \<open>
  \<^verbatim>\<open>accuracy_score(y_true, y_pred)\<close>: the mean of the element-wise comparison
  \<^verbatim>\<open>y_true == y_pred\<close> over all positions. The mean of an empty array is NaN.
\<close>

definition average :: "bool list \<Rightarrow> pyfloat" where
  "average score =
     (if score = [] then NaN
      else Finite (of_nat (length (filter id score)) / of_nat (length score)))"

definition sk_accuracy_score :: "label list \<Rightarrow> label list \<Rightarrow> error + pyfloat" where
  "sk_accuracy_score y_true y_pred =
     (case check_targets y_true y_pred of
        Inl e \<Rightarrow> Inl e
      | Inr y_type \<Rightarrow> Inr (average (map (\<lambda>(t, p). t = p) (zip y_true y_pred))))"

text \<open>
  \<^verbatim>\<open>_check_set_wise_labels\<close> with \<^verbatim>\<open>average='binary'\<close> (the default that
  \<^verbatim>\<open>precision_score\<close>, \<^verbatim>\<open>recall_score\<close> and \<^verbatim>\<open>f1_score\<close> use): a multiclass target is
  refused, and so is a positive label that is absent while two labels are present.
\<close>

definition check_set_wise_labels ::
  "label list \<Rightarrow> label list \<Rightarrow> label \<Rightarrow> error + label list" where
  "check_set_wise_labels y_true y_pred pos_label =
     (case check_targets y_true y_pred of
        Inl e \<Rightarrow> Inl e
      | Inr y_type \<Rightarrow>
          let present_labels = unique_labels y_true y_pred in
          if y_type = Binary then
            (if pos_label \<notin> set present_labels \<and> length present_labels \<ge> 2
             then Inl PosLabelInvalid
             else Inr [pos_label])
          else Inl TargetNotBinary)"

text \<open>
  \<^verbatim>\<open>precision_recall_fscore_support\<close> for the single label \<^verbatim>\<open>pos_label\<close>:
  the library's \<^verbatim>\<open>tp_sum\<close> counts the positions where both arrays hold the label, its
  \<^verbatim>\<open>pred_sum\<close> and \<^verbatim>\<open>true_sum\<close> count the label's occurrences in each array.
  \<^verbatim>\<open>_prf_divide\<close> with \<^verbatim>\<open>zero_division=0\<close> yields 0 where the denominator is 0. The
  F-score is computed from the counts,
  \<^verbatim>\<open>(1 + beta2) * tp_sum / (beta2 * true_sum + pred_sum)\<close> with \<^verbatim>\<open>beta2 = 1\<close>: it is
  one rounded quotient of counts, like precision and recall, and is not computed from
  the rounded precision and recall.
\<close>

definition sk_tp_sum :: "label list \<Rightarrow> label list \<Rightarrow> label \<Rightarrow> nat" where
  "sk_tp_sum y_true y_pred l = count_list (zip y_true y_pred) (l, l)"

definition sk_pred_sum :: "label list \<Rightarrow> label \<Rightarrow> nat" where
  "sk_pred_sum y_pred l = count_list y_pred l"

definition sk_true_sum :: "label list \<Rightarrow> label \<Rightarrow> nat" where
  "sk_true_sum y_true l = count_list y_true l"

definition prf_divide :: "nat \<Rightarrow> nat \<Rightarrow> pyfloat" where
  "prf_divide numerator denominator =
     (if denominator = 0 then Finite 0
      else Finite (of_nat numerator / of_nat denominator))"

definition sk_precision_score :: "label list \<Rightarrow> label list \<Rightarrow> label \<Rightarrow> error + pyfloat" where
  "sk_precision_score y_true y_pred pos_label =
     (case check_set_wise_labels y_true y_pred pos_label of
        Inl e \<Rightarrow> Inl e
      | Inr labels \<Rightarrow> Inr (prf_divide (sk_tp_sum y_true y_pred pos_label) (sk_pred_sum y_pred pos_label)))"

definition sk_recall_score :: "label list \<Rightarrow> label list \<Rightarrow> label \<Rightarrow> error + pyfloat" where
  "sk_recall_score y_true y_pred pos_label =
     (case check_set_wise_labels y_true y_pred pos_label of
        Inl e \<Rightarrow> Inl e
      | Inr labels \<Rightarrow> Inr (prf_divide (sk_tp_sum y_true y_pred pos_label) (sk_true_sum y_true pos_label)))"

definition sk_f1_score :: "label list \<Rightarrow> label list \<Rightarrow> label \<Rightarrow> error + pyfloat" where
  "sk_f1_score y_true y_pred pos_label =
     (case check_set_wise_labels y_true y_pred pos_label of
        Inl e \<Rightarrow> Inl e
      | Inr labels \<Rightarrow>
          Inr (prf_divide (2 * sk_tp_sum y_true y_pred pos_label)
                 (sk_true_sum y_true pos_label + sk_pred_sum y_pred pos_label)))"

section \<open>calculate_metrics\<close>

text \<open>
  \<^verbatim>\<open>cm.shape == (2, 2)\<close>, and the four cells read where it holds.
\<close>

definition shape_2x2 :: "nat list list \<Rightarrow> bool" where
  "shape_2x2 cm = (length cm = 2 \<and> list_all (\<lambda>row. length row = 2) cm)"

definition cell :: "nat list list \<Rightarrow> nat \<Rightarrow> nat \<Rightarrow> nat" where
  "cell cm i j = (if shape_2x2 cm then cm ! i ! j else 0)"

definition calculate_metrics :: "label list \<Rightarrow> label list \<Rightarrow> label \<Rightarrow> error + metrics" where
  "calculate_metrics y_true y_pred pos_label =
     (case sk_confusion_matrix y_true y_pred [pos_label, ''No''] of
        Inl e \<Rightarrow> Inl e
      | Inr cm \<Rightarrow>
     (case sk_accuracy_score y_true y_pred of
        Inl e \<Rightarrow> Inl e
      | Inr acc \<Rightarrow>
     (case sk_precision_score y_true y_pred pos_label of
        Inl e \<Rightarrow> Inl e
      | Inr prec \<Rightarrow>
     (case sk_recall_score y_true y_pred pos_label of
        Inl e \<Rightarrow> Inl e
      | Inr rec \<Rightarrow>
     (case sk_f1_score y_true y_pred pos_label of
        Inl e \<Rightarrow> Inl e
      | Inr f1 \<Rightarrow>
          Inr \<lparr> accuracy = acc,
                precision = prec,
                recall = rec,
                f1_score = f1,
                confusion_matrix =
                  \<lparr> true_positive = cell cm 0 0,
                    true_negative = cell cm 1 1,
                    false_positive = cell cm 1 0,
                    false_negative = cell cm 0 1 \<rparr>,
                total_samples = length y_true,
                tp = cell cm 0 0,
                tn = cell cm 1 1,
                fp = cell cm 1 0,
                fn = cell cm 0 1 \<rparr>)))))"

section \<open>The command-line program\<close>

text \<open>
  The printed lines are modelled by what they report, not by their layout. A data frame
  is the list of its columns, each with its values; \<^verbatim>\<open>pd.read_csv\<close> and
  \<^verbatim>\<open>open(output_file, 'w')\<close> are the environment of \<^verbatim>\<open>main\<close> and may raise.
\<close>

type_synonym dataframe = "(string \<times> label list) list"

definition columns :: "dataframe \<Rightarrow> string list" where
  "columns df = map fst df"

definition len_df :: "dataframe \<Rightarrow> nat" where
  "len_df df = (case df of [] \<Rightarrow> 0 | (c, vs) # rest \<Rightarrow> length vs)"

datatype exn =
    FileNotFoundError
  | KeyError string
  | ValueError error
  | OtherError

datatype message =
    Usage
  | Loading string
  | Loaded nat
  | MissingColumns string
  | AvailableColumns string
  | InvalidActual "label set"
  | InvalidPredicted "label set"
  | LabelDistribution nat nat nat nat
  | Calculating
  | Results metrics
  | ClassificationReport
  | Saved string
  | Complete
  | FileNotFoundMsg string
  | ErrorMsg exn

record env =
  read_csv :: "string \<Rightarrow> exn + dataframe"
  open_w :: "string \<Rightarrow> exn option"

record run =
  printed :: "message list"
  written :: "(string \<times> metrics) option"
  exit_status :: nat

text \<open>\<^verbatim>\<open>sep.join(xs)\<close>.\<close>

fun join :: "string \<Rightarrow> string list \<Rightarrow> string" where
  "join sep [] = []"
| "join sep [x] = x"
| "join sep (x # y # ys) = x @ sep @ join sep (y # ys)"

text \<open>
  \<^verbatim>\<open>s.replace(old, new)\<close>: every non-overlapping occurrence of \<^verbatim>\<open>old\<close>, found from
  the left, is replaced; an empty \<^verbatim>\<open>old\<close> matches before every character and at the
  end.
\<close>

fun replace_from_left :: "string \<Rightarrow> string \<Rightarrow> string \<Rightarrow> string" where
  "replace_from_left old new [] = []"
| "replace_from_left old new (c # cs) =
     (if old \<noteq> [] \<and> take (length old) (c # cs) = old
      then new @ replace_from_left old new (drop (length old - 1) cs)
      else c # replace_from_left old new cs)"

definition str_replace :: "string \<Rightarrow> string \<Rightarrow> string \<Rightarrow> string" where
  "str_replace s old new =
     (if old = [] then new @ concat (map (\<lambda>c. c # new) s)
      else replace_from_left old new s)"

definition verify_csv_format :: "dataframe \<Rightarrow> message list \<times> bool" where
  "verify_csv_format df =
     (let required_columns = [''actual_label'', ''predicted_label''];
          missing = filter (\<lambda>col. col \<notin> set (columns df)) required_columns
      in if missing \<noteq> [] then
           ([MissingColumns (join '', '' missing), AvailableColumns (join '', '' (columns df))],
            False)
         else ([], True))"

text \<open>
  The two \<^verbatim>\<open>except\<close> clauses of \<^verbatim>\<open>main\<close>. \<^verbatim>\<open>sys.exit(1)\<close> raises
  \<^verbatim>\<open>SystemExit\<close>, which neither clause catches, so the exit inside the \<^verbatim>\<open>try\<close>
  block leaves the program directly.
\<close>

definition handle_exception :: "string \<Rightarrow> message list \<Rightarrow> exn \<Rightarrow> run" where
  "handle_exception csv_file out e =
     (case e of
        FileNotFoundError \<Rightarrow>
          \<lparr> printed = out @ [FileNotFoundMsg csv_file], written = None, exit_status = 1 \<rparr>
      | _ \<Rightarrow> \<lparr> printed = out @ [ErrorMsg e], written = None, exit_status = 1 \<rparr>)"

definition valid_labels :: "label list" where
  "valid_labels = [''Yes'', ''No'']"

definition label_warnings :: "label list \<Rightarrow> label list \<Rightarrow> message list" where
  "label_warnings y_true y_pred =
     (let invalid_true = filter (\<lambda>label. label \<notin> set valid_labels) y_true;
          invalid_pred = filter (\<lambda>label. label \<notin> set valid_labels) y_pred
      in (if invalid_true \<noteq> [] then [InvalidActual (set invalid_true)] else []) @
         (if invalid_pred \<noteq> [] then [InvalidPredicted (set invalid_pred)] else []))"

definition output_file_of :: "string \<Rightarrow> string" where
  "output_file_of csv_file = str_replace csv_file ''.csv'' ''_python_metrics.json''"

definition main :: "env \<Rightarrow> string list \<Rightarrow> run" where
  "main e argv =
     (if length argv < 2 then \<lparr> printed = [Usage], written = None, exit_status = 1 \<rparr>
      else
        let csv_file = argv ! 1 in
        case read_csv e csv_file of
          Inl ex \<Rightarrow> handle_exception csv_file [Loading csv_file] ex
        | Inr df \<Rightarrow>
        let out1 = [Loading csv_file, Loaded (len_df df)] in
        case verify_csv_format df of
          (msgs, False) \<Rightarrow> \<lparr> printed = out1 @ msgs, written = None, exit_status = 1 \<rparr>
        | (msgs, True) \<Rightarrow>
        case map_of df ''actual_label'' of
          None \<Rightarrow> handle_exception csv_file out1 (KeyError ''actual_label'')
        | Some y_true \<Rightarrow>
        case map_of df ''predicted_label'' of
          None \<Rightarrow> handle_exception csv_file out1 (KeyError ''predicted_label'')
        | Some y_pred \<Rightarrow>
        let out2 = out1 @ label_warnings y_true y_pred @
              [LabelDistribution (count_list y_true ''Yes'') (count_list y_true ''No'')
                 (count_list y_pred ''Yes'') (count_list y_pred ''No''),
               Calculating] in
        case calculate_metrics y_true y_pred ''Yes'' of
          Inl err \<Rightarrow> handle_exception csv_file out2 (ValueError err)
        | Inr metrics \<Rightarrow>
        let out3 = out2 @ [Results metrics, ClassificationReport];
            output_file = output_file_of csv_file in
        case open_w e output_file of
          Some ex \<Rightarrow> handle_exception csv_file out3 ex
        | None \<Rightarrow>
            \<lparr> printed = out3 @ [Saved output_file, Complete],
              written = Some (output_file, metrics),
              exit_status = 0 \<rparr>)"

text \<open>
  A file system that holds one readable CSV file and accepts every write; the example
  runs below use it.
\<close>

definition single_file_env :: "string \<Rightarrow> dataframe \<Rightarrow> env" where
  "single_file_env name df =
     \<lparr> read_csv = (\<lambda>f. if f = name then Inr df else Inl FileNotFoundError),
       open_w = (\<lambda>f. None) \<rparr>"

section \<open>The formulas of the specification\<close>

text \<open>
  The specification states accuracy, precision and recall over the pairs whose two labels
  are both valid, with "Yes" as the positive class. These definitions follow its words
  and are compared below with what \<^verbatim>\<open>calculate_metrics\<close> returns.
\<close>

definition valid_pair :: "label \<times> label \<Rightarrow> bool" where
  "valid_pair z = (fst z \<in> set valid_labels \<and> snd z \<in> set valid_labels)"

definition claimed_accuracy :: "label list \<Rightarrow> label list \<Rightarrow> pyfloat" where
  "claimed_accuracy y_true y_pred =
     (let zs = filter valid_pair (zip y_true y_pred);
          N = length zs;
          tp = count_list zs (''Yes'', ''Yes'');
          tn = count_list zs (''No'', ''No'')
      in if N = 0 then Finite 0 else Finite (of_nat (tp + tn) / of_nat N))"

definition claimed_precision :: "label list \<Rightarrow> label list \<Rightarrow> pyfloat" where
  "claimed_precision y_true y_pred =
     (let zs = filter valid_pair (zip y_true y_pred);
          tp = count_list zs (''Yes'', ''Yes'');
          fp = count_list zs (''No'', ''Yes'')
      in if tp + fp = 0 then Finite 0 else Finite (of_nat tp / of_nat (tp + fp)))"

definition claimed_recall :: "label list \<Rightarrow> label list \<Rightarrow> pyfloat" where
  "claimed_recall y_true y_pred =
     (let zs = filter valid_pair (zip y_true y_pred);
          tp = count_list zs (''Yes'', ''Yes'');
          fn = count_list zs (''Yes'', ''No'')
      in if tp + fn = 0 then Finite 0 else Finite (of_nat tp / of_nat (tp + fn)))"

section \<open>Double-precision arithmetic\<close>

text \<open>\<open>bit_length n\<close> is the number of binary digits of a positive integer.\<close>

function bit_length :: "int \<Rightarrow> int" where
  "bit_length n = (if n \<le> 0 then 0 else 1 + bit_length (n div 2))"
  by pat_completeness auto
termination
  by (relation "measure nat") auto

declare bit_length.simps [simp del]

text \<open>\<open>pow2 e\<close> is 2 to the power \<open>e\<close>, also for a negative exponent.\<close>

definition pow2 :: "int \<Rightarrow> rat" where
  "pow2 e = (if 0 \<le> e then 2 ^ nat e else 1 / 2 ^ nat (- e))"

text \<open>Rounding to the nearest integer, a tie going to the even one.\<close>

definition round_half_even :: "rat \<Rightarrow> int" where
  "round_half_even x =
     (let f = \<lfloor>x\<rfloor>; r = x - of_int f
      in if r < 1 / 2 then f
         else if 1 / 2 < r then f + 1
         else if even f then f else f + 1)"

text \<open>
  For a positive rational \<open>q\<close>, \<open>binary_exponent q\<close> is the integer \<open>k\<close> with
  \<open>2 ^ k \<le> q < 2 ^ (k + 1)\<close>: the bit lengths of numerator and denominator give it up
  to one.
\<close>

definition binary_exponent :: "rat \<Rightarrow> int" where
  "binary_exponent q =
     (let (a, b) = quotient_of q;
          k = bit_length a - bit_length b
      in if pow2 k \<le> q then k else k - 1)"

text \<open>
  The double nearest to a rational: the significand has 53 bits and a tie goes to the
  even significand. The exponent is not bounded; quotients of counts neither overflow
  nor reach the subnormal range.
\<close>

definition round_to_double :: "rat \<Rightarrow> rat" where
  "round_to_double q =
     (if q = 0 then 0
      else let e = binary_exponent \<bar>q\<bar> - 52
           in sgn q * of_int (round_half_even (\<bar>q\<bar> / pow2 e)) * pow2 e)"

text \<open>
  Addition, multiplication and division of doubles round the exact result, and
  \<open>claimed_f1\<close> is the specification's expression
  \<^verbatim>\<open>2 * precision * recall / (precision + recall)\<close> evaluated on two doubles in this
  arithmetic, from the left, with 0 where the denominator is 0.
\<close>

definition double_add :: "rat \<Rightarrow> rat \<Rightarrow> rat" where
  "double_add x y = round_to_double (x + y)"

definition double_mul :: "rat \<Rightarrow> rat \<Rightarrow> rat" where
  "double_mul x y = round_to_double (x * y)"

definition double_div :: "rat \<Rightarrow> rat \<Rightarrow> rat" where
  "double_div x y = round_to_double (x / y)"

definition claimed_f1 :: "rat \<Rightarrow> rat \<Rightarrow> rat" where
  "claimed_f1 p r =
     (if double_add p r = 0 then 0
      else double_div (double_mul (double_mul 2 p) r) (double_add p r))"

section \<open>Reading the confusion matrix\<close>

lemma upt_0_2: "[0..<2] = [0, Suc 0]"
  by (simp add: numeral_2_eq_2)

lemma label_to_ind_pair:
  "label_to_ind [p, q] = [p \<mapsto> 0, q \<mapsto> Suc 0]"
  by (simp add: label_to_ind_def)

lemma to_index_pair:
  "to_index (label_to_ind [p, q]) 2 x = (if x = q then 1 else if x = p then 0 else 3)"
  by (simp add: to_index_def label_to_ind_pair)

lemma kept_pairs_alt:
  "kept_pairs yt yp [p, q] =
     filter (\<lambda>(t, p). p < 2 \<and> t < 2)
       (map (\<lambda>(a, b). (to_index (label_to_ind [p, q]) 2 a, to_index (label_to_ind [p, q]) 2 b)) (zip yt yp))"
  by (simp add: kept_pairs_def zip_map_map Let_def numeral_2_eq_2)

lemma count_list_filter_map:
  "count_list (filter P (map f xs)) y = length (filter (\<lambda>x. f x = y \<and> P y) xs)"
  by (induction xs) auto

lemma count_list_length_filter: "count_list xs y = length (filter (\<lambda>x. x = y) xs)"
  by (induction xs) auto

lemma cell_2x2:
  "i < 2 \<Longrightarrow> j < 2 \<Longrightarrow> cell (map (\<lambda>i. map (f i) [0..<2]) [0..<2]) i j = f i j"
  by (auto simp: cell_def shape_2x2_def upt_0_2 less_2_cases_iff)

lemma cell_zero: "i < 2 \<Longrightarrow> j < 2 \<Longrightarrow> cell (replicate 2 (replicate 2 0)) i j = 0"
  by (auto simp: cell_def shape_2x2_def numeral_2_eq_2 nth_Cons' less_Suc_eq)

lemma sk_confusion_matrix_cell:
  assumes "sk_confusion_matrix yt yp [p, q] = Inr cm" "i < 2" "j < 2"
  shows "cell cm i j = count_list (kept_pairs yt yp [p, q]) (i, j)"
proof (cases "yt = []")
  case True
  with assms(1) have "cm = replicate 2 (replicate 2 0)"
    by (auto simp: sk_confusion_matrix_def numeral_2_eq_2 split: sum.splits if_splits)
  moreover have "kept_pairs yt yp [p, q] = []" using True by (simp add: kept_pairs_def)
  ultimately show ?thesis using assms(2,3) by (simp add: cell_zero)
next
  case False
  with assms(1) have "cm = map (\<lambda>i. map (\<lambda>j. count_list (kept_pairs yt yp [p, q]) (i, j)) [0..<2]) [0..<2]"
    by (auto simp: sk_confusion_matrix_def Let_def upt_0_2 split: sum.splits if_splits)
  then show ?thesis using assms(2,3) by (simp only: cell_2x2)
qed

section \<open>The fields of a returned result\<close>

lemma calculate_metrics_InrD:
  assumes "calculate_metrics yt yp p = Inr m"
  shows "length yt = length yp"
    and "total_samples m = length yt"
    and "tp m = count_list (kept_pairs yt yp [p, ''No'']) (0, 0)"
    and "fn m = count_list (kept_pairs yt yp [p, ''No'']) (0, Suc 0)"
    and "fp m = count_list (kept_pairs yt yp [p, ''No'']) (Suc 0, 0)"
    and "tn m = count_list (kept_pairs yt yp [p, ''No'']) (Suc 0, Suc 0)"
    and "confusion_matrix m = \<lparr> true_positive = tp m, true_negative = tn m,
           false_positive = fp m, false_negative = fn m \<rparr>"
    and "accuracy m = average (map (\<lambda>(t, p). t = p) (zip yt yp))"
    and "precision m = prf_divide (sk_tp_sum yt yp p) (sk_pred_sum yp p)"
    and "recall m = prf_divide (sk_tp_sum yt yp p) (sk_true_sum yt p)"
    and "f1_score m = prf_divide (2 * sk_tp_sum yt yp p) (sk_true_sum yt p + sk_pred_sum yp p)"
proof -
  from assms obtain cm acc prec rc f1 where
    cm: "sk_confusion_matrix yt yp [p, ''No''] = Inr cm" and
    acc: "sk_accuracy_score yt yp = Inr acc" and
    prec: "sk_precision_score yt yp p = Inr prec" and
    rc: "sk_recall_score yt yp p = Inr rc" and
    f1: "sk_f1_score yt yp p = Inr f1" and
    m: "m = \<lparr> accuracy = acc, precision = prec, recall = rc, f1_score = f1,
              confusion_matrix = \<lparr> true_positive = cell cm 0 0, true_negative = cell cm 1 1,
                false_positive = cell cm 1 0, false_negative = cell cm 0 1 \<rparr>,
              total_samples = length yt, tp = cell cm 0 0, tn = cell cm 1 1,
              fp = cell cm 1 0, fn = cell cm 0 1 \<rparr>"
    by (auto simp: calculate_metrics_def split: sum.splits)
  from acc show len: "length yt = length yp"
    by (auto simp: sk_accuracy_score_def check_targets_def split: sum.splits if_splits)
  show "total_samples m = length yt" by (simp add: m)
  show "tp m = count_list (kept_pairs yt yp [p, ''No'']) (0, 0)"
    using sk_confusion_matrix_cell[OF cm, of 0 0] by (simp add: m)
  show "fn m = count_list (kept_pairs yt yp [p, ''No'']) (0, Suc 0)"
    using sk_confusion_matrix_cell[OF cm, of 0 "Suc 0"] by (simp add: m)
  show "fp m = count_list (kept_pairs yt yp [p, ''No'']) (Suc 0, 0)"
    using sk_confusion_matrix_cell[OF cm, of "Suc 0" 0] by (simp add: m)
  show "tn m = count_list (kept_pairs yt yp [p, ''No'']) (Suc 0, Suc 0)"
    using sk_confusion_matrix_cell[OF cm, of "Suc 0" "Suc 0"] by (simp add: m)
  show "confusion_matrix m = \<lparr> true_positive = tp m, true_negative = tn m,
           false_positive = fp m, false_negative = fn m \<rparr>"
    by (simp add: m)
  from acc show "accuracy m = average (map (\<lambda>(t, p). t = p) (zip yt yp))"
    by (auto simp: m sk_accuracy_score_def split: sum.splits)
  from prec show "precision m = prf_divide (sk_tp_sum yt yp p) (sk_pred_sum yp p)"
    by (auto simp: m sk_precision_score_def split: sum.splits)
  from rc show "recall m = prf_divide (sk_tp_sum yt yp p) (sk_true_sum yt p)"
    by (auto simp: m sk_recall_score_def split: sum.splits)
  from f1 show "f1_score m = prf_divide (2 * sk_tp_sum yt yp p) (sk_true_sum yt p + sk_pred_sum yp p)"
    by (auto simp: m sk_f1_score_def split: sum.splits)
qed

lemma kept_pairs_count:
  assumes "p \<noteq> q"
  shows "count_list (kept_pairs yt yp [p, q]) (0, 0) = count_list (zip yt yp) (p, p)"
    and "count_list (kept_pairs yt yp [p, q]) (0, Suc 0) = count_list (zip yt yp) (p, q)"
    and "count_list (kept_pairs yt yp [p, q]) (Suc 0, 0) = count_list (zip yt yp) (q, p)"
    and "count_list (kept_pairs yt yp [p, q]) (Suc 0, Suc 0) = count_list (zip yt yp) (q, q)"
  using assms
  by (auto simp: kept_pairs_alt count_list_filter_map to_index_pair count_list_length_filter
           intro!: arg_cong[where f = length] filter_cong split: if_splits)

lemma count_four:
  assumes "distinct [a, b, c, d]"
  shows "count_list xs a + count_list xs b + count_list xs c + count_list xs d =
         length (filter (\<lambda>x. x \<in> {a, b, c, d}) xs)"
  using assms by (induction xs) auto

lemma length_filter_all: "length (filter P xs) = length xs \<longleftrightarrow> list_all P xs"
proof (induction xs)
  case Nil
  show ?case by simp
next
  case (Cons x xs)
  have "length (filter P xs) \<noteq> Suc (length xs)"
    using length_filter_le[of P xs] by arith
  with Cons show ?case by auto
qed

lemma list_all_zip_both:
  assumes "length xs = length ys"
  shows "list_all (\<lambda>(a, b). a \<in> V \<and> b \<in> V) (zip xs ys) \<longleftrightarrow> set xs \<subseteq> V \<and> set ys \<subseteq> V"
  using assms by (induction xs ys rule: list_induct2) auto

lemma counts_sum:
  assumes "calculate_metrics yt yp p = Inr m" "p \<noteq> ''No''"
  shows "tp m + tn m + fp m + fn m =
         length (filter (\<lambda>(a, b). a \<in> {p, ''No''} \<and> b \<in> {p, ''No''}) (zip yt yp))"
proof -
  let ?zs = "zip yt yp"
  have "tp m + tn m + fp m + fn m =
        count_list ?zs (p, p) + count_list ?zs (''No'', ''No'') +
        count_list ?zs (''No'', p) + count_list ?zs (p, ''No'')"
    using assms by (simp add: calculate_metrics_InrD kept_pairs_count)
  also have "\<dots> = length (filter (\<lambda>x. x \<in> {(p, p), (''No'', ''No''), (''No'', p), (p, ''No'')}) ?zs)"
    using assms(2) by (intro count_four) auto
  also have "\<dots> = length (filter (\<lambda>(a, b). a \<in> {p, ''No''} \<and> b \<in> {p, ''No''}) ?zs)"
    by (intro arg_cong[where f = length] filter_cong) auto
  finally show ?thesis .
qed

lemma counts_total:
  assumes "calculate_metrics y_true y_pred ''Yes'' = Inr m"
  shows "tp m + tn m + fp m + fn m \<le> total_samples m \<and>
         (tp m + tn m + fp m + fn m = total_samples m \<longleftrightarrow>
            set y_true \<subseteq> {''Yes'', ''No''} \<and> set y_pred \<subseteq> {''Yes'', ''No''}) \<and>
         total_samples m = length y_true \<and> length y_pred = length y_true"
proof -
  let ?V = "{''Yes'', ''No''}"
  let ?P = "\<lambda>(a, b). a \<in> ?V \<and> b \<in> ?V"
  have len: "length y_true = length y_pred" and tot: "total_samples m = length y_true"
    using assms by (simp_all add: calculate_metrics_InrD)
  have sum: "tp m + tn m + fp m + fn m = length (filter ?P (zip y_true y_pred))"
    using counts_sum[OF assms] by simp
  have zl: "length (zip y_true y_pred) = length y_true" using len by simp
  have le: "tp m + tn m + fp m + fn m \<le> total_samples m"
    unfolding sum tot using length_filter_le[of ?P "zip y_true y_pred"] zl by simp
  have "tp m + tn m + fp m + fn m = total_samples m \<longleftrightarrow> list_all ?P (zip y_true y_pred)"
    unfolding sum tot using length_filter_all[of ?P "zip y_true y_pred"] zl by simp
  also have "\<dots> \<longleftrightarrow> set y_true \<subseteq> ?V \<and> set y_pred \<subseteq> ?V"
    by (rule list_all_zip_both[OF len])
  finally show ?thesis using le tot len by simp
qed

lemma length_filter_id_map: "length (filter id (map f xs)) = length (filter f xs)"
  by (induction xs) auto

lemma equal_pairs_valid:
  assumes "list_all (\<lambda>(a, b). a \<in> {y, n} \<and> b \<in> {y, n}) zs" "y \<noteq> n"
  shows "length (filter (\<lambda>(a, b). a = b) zs) = count_list zs (y, y) + count_list zs (n, n)"
  using assms by (induction zs) auto

lemma count_right_valid_left:
  assumes "length xs = length ys" "set xs \<subseteq> {y, n}" "y \<noteq> n"
  shows "count_list ys l = count_list (zip xs ys) (y, l) + count_list (zip xs ys) (n, l)"
  using assms by (induction xs ys rule: list_induct2) auto

lemma count_left_valid_right:
  assumes "length xs = length ys" "set ys \<subseteq> {y, n}" "y \<noteq> n"
  shows "count_list xs l = count_list (zip xs ys) (l, y) + count_list (zip xs ys) (l, n)"
  using assms by (induction xs ys rule: list_induct2) auto

lemma sk_tp_sum_le_pred: "sk_tp_sum yt yp l \<le> sk_pred_sum yp l"
  unfolding sk_tp_sum_def sk_pred_sum_def
proof (induction yt arbitrary: yp)
  case Nil
  show ?case by simp
next
  case (Cons a yt)
  show ?case using Cons[of "tl yp"] by (cases yp) auto
qed

lemma sk_tp_sum_le_true: "sk_tp_sum yt yp l \<le> sk_true_sum yt l"
  unfolding sk_tp_sum_def sk_true_sum_def
proof (induction yt arbitrary: yp)
  case Nil
  show ?case by simp
next
  case (Cons a yt)
  show ?case using Cons[of "tl yp"] by (cases yp) auto
qed

lemma harmonic_mean:
  fixes a b c :: rat
  assumes "0 < a" "0 < b" "0 < c"
  shows "2 * (a / b) * (a / c) / (a / b + a / c) = 2 * a / (c + b)"
proof -
  have bc: "b * c \<noteq> 0" and s: "c + b \<noteq> 0" and a: "a \<noteq> 0" using assms by auto
  have "a / b + a / c = a * (c + b) / (b * c)"
    using assms by (simp add: field_simps)
  moreover have "2 * (a / b) * (a / c) = 2 * a * a / (b * c)" by simp
  ultimately have "2 * (a / b) * (a / c) / (a / b + a / c) = (2 * a * a / (b * c)) / (a * (c + b) / (b * c))"
    by simp
  also have "\<dots> = (2 * a * a) / (a * (c + b))"
    using bc by simp
  also have "\<dots> = 2 * a / (c + b)"
    using a by simp
  finally show ?thesis .
qed

section \<open>When a result is returned\<close>

lemma check_targets_card:
  "check_targets yt yp =
     (if length yt \<noteq> length yp then Inl InconsistentLength
      else if card (set yt \<union> set yp) > 2 then Inr Multiclass else Inr Binary)"
proof -
  have "card (set yt) \<le> card (set yt \<union> set yp)" "card (set yp) \<le> card (set yt \<union> set yp)"
    by (simp_all add: card_mono)
  then show ?thesis
    by (auto simp: check_targets_def type_of_target_def unique_labels_def
        length_remdups_card_conv)
qed

lemma calculate_metrics_returns_iff:
  "(\<exists>m. calculate_metrics yt yp p = Inr m) \<longleftrightarrow>
     length yt = length yp \<and>
     (yt = [] \<or> set yt \<inter> {p, ''No''} \<noteq> {}) \<and>
     card (set yt \<union> set yp) \<le> 2 \<and>
     (p \<in> set yt \<union> set yp \<or> card (set yt \<union> set yp) < 2)"
  by (auto simp: calculate_metrics_def sk_confusion_matrix_def sk_accuracy_score_def
      sk_precision_score_def sk_recall_score_def sk_f1_score_def check_set_wise_labels_def
      check_targets_card unique_labels_def length_remdups_card_conv Let_def
      split: sum.splits if_splits)

lemma calculate_metrics_returns_valid:
  assumes "length yt = length yp"
    and "set yt \<subseteq> {''Yes'', ''No''}" and "set yp \<subseteq> {''Yes'', ''No''}"
  shows "\<exists>m. calculate_metrics yt yp ''Yes'' = Inr m"
proof -
  let ?U = "set yt \<union> set yp"
  have sub: "?U \<subseteq> {''Yes'', ''No''}" using assms by auto
  have c2: "card ?U \<le> 2"
    using card_mono[OF _ sub] by simp
  have c1: "card ?U < 2" if "''Yes'' \<notin> ?U"
  proof -
    have "?U \<subseteq> {''No''}" using sub that by auto
    then have "card ?U \<le> card {''No''}" by (intro card_mono) auto
    then show ?thesis by simp
  qed
  have ne: "yt = [] \<or> set yt \<inter> {''Yes'', ''No''} \<noteq> {}"
    using assms(2) by (cases yt) auto
  show ?thesis
    unfolding calculate_metrics_returns_iff using assms(1) ne c2 c1 by blast
qed

section \<open>Permuted datasets\<close>

lemma count_list_mset: "count_list xs x = count (mset xs) x"
  by (induction xs) auto

lemma perm_columns:
  assumes "mset ds' = mset ds"
  shows "mset (map f ds') = mset (map f ds)"
    and "set (map f ds') = set (map f ds)"
    and "length (map f ds') = length (map g ds)"
    and "map f ds' = [] \<longleftrightarrow> map g ds = []"
proof -
  show m: "mset (map f ds') = mset (map f ds)" using assms by (metis mset_map)
  show "set (map f ds') = set (map f ds)" using m by (rule mset_eq_setD)
  show l: "length (map f ds') = length (map g ds)"
    using mset_eq_length[OF assms] by simp
  show "map f ds' = [] \<longleftrightarrow> map g ds = []" using l by (metis length_0_conv)
qed

lemma check_targets_perm:
  assumes "mset ds' = mset ds"
  shows "check_targets (map fst ds') (map snd ds') = check_targets (map fst ds) (map snd ds)"
  unfolding check_targets_def type_of_target_def unique_labels_def length_remdups_card_conv
    set_append
  using perm_columns(2)[OF assms, of fst] perm_columns(2)[OF assms, of snd]
  by simp

lemma kept_pairs_perm:
  assumes "mset ds' = mset ds"
  shows "count_list (kept_pairs (map fst ds') (map snd ds') labels) x =
         count_list (kept_pairs (map fst ds) (map snd ds) labels) x"
proof -
  have k: "kept_pairs (map fst zs) (map snd zs) labels =
        filter (\<lambda>(t, p). p < length labels \<and> t < length labels)
          (map (\<lambda>z. (to_index (label_to_ind labels) (length labels) (fst z),
                      to_index (label_to_ind labels) (length labels) (snd z))) zs)" for zs
    by (induction zs) (auto simp: kept_pairs_def Let_def)
  show ?thesis
    unfolding k count_list_mset mset_filter mset_map assms by (rule refl)
qed

lemma sk_confusion_matrix_perm:
  assumes "mset ds' = mset ds"
  shows "sk_confusion_matrix (map fst ds') (map snd ds') labels =
         sk_confusion_matrix (map fst ds) (map snd ds) labels"
  unfolding sk_confusion_matrix_def check_targets_perm[OF assms] kept_pairs_perm[OF assms]
    perm_columns(2)[OF assms] perm_columns(4)[OF assms, of fst fst]
  by (rule refl)

lemma average_perm:
  assumes "mset s' = mset s"
  shows "average s' = average s"
proof -
  have "length s' = length s" using assms by (rule mset_eq_length)
  moreover have "s' = [] \<longleftrightarrow> s = []" using calculation by (metis length_0_conv)
  moreover have "length (filter id s') = length (filter id s)"
    using assms by (metis mset_filter size_mset)
  ultimately show ?thesis by (simp add: average_def)
qed

lemma sk_accuracy_score_perm:
  assumes "mset ds' = mset ds"
  shows "sk_accuracy_score (map fst ds') (map snd ds') =
         sk_accuracy_score (map fst ds) (map snd ds)"
  unfolding sk_accuracy_score_def check_targets_perm[OF assms] zip_map_fst_snd
    average_perm[OF perm_columns(1)[OF assms, of "\<lambda>(t, p). t = p"]]
  by (rule refl)

lemma check_set_wise_labels_perm:
  assumes "mset ds' = mset ds"
  shows "check_set_wise_labels (map fst ds') (map snd ds') l =
         check_set_wise_labels (map fst ds) (map snd ds) l"
  unfolding check_set_wise_labels_def check_targets_perm[OF assms] unique_labels_def Let_def
    length_remdups_card_conv set_remdups set_append
    perm_columns(2)[OF assms]
  by (rule refl)

lemma sums_perm:
  assumes "mset ds' = mset ds"
  shows "sk_tp_sum (map fst ds') (map snd ds') l = sk_tp_sum (map fst ds) (map snd ds) l"
    and "sk_pred_sum (map snd ds') l = sk_pred_sum (map snd ds) l"
    and "sk_true_sum (map fst ds') l = sk_true_sum (map fst ds) l"
  unfolding sk_tp_sum_def sk_pred_sum_def sk_true_sum_def zip_map_fst_snd count_list_mset
  using assms perm_columns(1)[OF assms] by simp_all

section \<open>The checks of the command-line program\<close>

lemma verify_csv_format_ok:
  assumes "map_of df ''actual_label'' = Some yt" "map_of df ''predicted_label'' = Some yp"
  shows "verify_csv_format df = ([], True)"
proof -
  have "''actual_label'' \<in> set (columns df)" "''predicted_label'' \<in> set (columns df)"
    using assms by (auto simp: columns_def dest!: map_of_SomeD intro: rev_image_eqI)
  then show ?thesis by (simp add: verify_csv_format_def)
qed

lemma verify_csv_format_missing:
  assumes "\<not> {''actual_label'', ''predicted_label''} \<subseteq> set (columns df)"
  shows "verify_csv_format df =
    ([MissingColumns (join '', '' (filter (\<lambda>col. col \<notin> set (columns df))
          [''actual_label'', ''predicted_label''])),
      AvailableColumns (join '', '' (columns df))], False)"
  using assms by (auto simp: verify_csv_format_def)

section \<open>Accuracy\<close>

text \<open>
  C1. The accuracy that \<^verbatim>\<open>calculate_metrics\<close> returns is the score of
  \<^verbatim>\<open>accuracy_score\<close> on the two raw lists: on every non-empty dataset for which a
  result is returned it is the number of pairs whose actual and predicted labels are
  equal, divided by total_samples, whether or not the labels are valid. When every pair
  has both labels in {"Yes", "No"} this is (tp + tn) / N with N = tp + tn + fp + fn.
\<close>

theorem accuracy_over_all_pairs:
  assumes "calculate_metrics y_true y_pred ''Yes'' = Inr m" and "y_true \<noteq> []"
  shows "accuracy m =
           Finite (of_nat (length (filter (\<lambda>(a, b). a = b) (zip y_true y_pred))) /
                   of_nat (total_samples m)) \<and>
         (set y_true \<subseteq> {''Yes'', ''No''} \<and> set y_pred \<subseteq> {''Yes'', ''No''} \<longrightarrow>
            accuracy m = Finite (of_nat (tp m + tn m) / of_nat (tp m + tn m + fp m + fn m)))"
proof -
  let ?V = "{''Yes'', ''No''}"
  let ?zs = "zip y_true y_pred"
  have len: "length y_true = length y_pred" and tot: "total_samples m = length y_true"
    using assms by (simp_all add: calculate_metrics_InrD)
  have ne: "?zs \<noteq> []" using assms(2) len by (cases y_true; cases y_pred) auto
  have acc: "accuracy m =
      Finite (of_nat (length (filter (\<lambda>(a, b). a = b) ?zs)) / of_nat (total_samples m))"
    using ne len by (simp add: calculate_metrics_InrD[OF assms(1)] average_def
        length_filter_id_map)
  have "accuracy m = Finite (of_nat (tp m + tn m) / of_nat (tp m + tn m + fp m + fn m))"
    if v: "set y_true \<subseteq> ?V \<and> set y_pred \<subseteq> ?V"
  proof -
    have all: "list_all (\<lambda>(a, b). a \<in> ?V \<and> b \<in> ?V) ?zs"
      using v list_all_zip_both[OF len, of ?V] by simp
    have "tp m + tn m + fp m + fn m = total_samples m"
      using counts_total[OF assms(1)] v by simp
    moreover have "length (filter (\<lambda>(a, b). a = b) ?zs) = tp m + tn m"
      using equal_pairs_valid[OF all]
      by (simp add: calculate_metrics_InrD[OF assms(1)] kept_pairs_count)
    ultimately show ?thesis using acc by simp
  qed
  with acc show ?thesis by blast
qed

theorem accuracy_over_all_pairs_witness:
  "\<exists>m. calculate_metrics [''Yes'', ''Yes'', ''No''] [''Yes'', ''No'', ''No''] ''Yes'' = Inr m \<and>
       accuracy m = Finite (2 / 3) \<and>
       accuracy m = Finite (of_nat (tp m + tn m) / of_nat (tp m + tn m + fp m + fn m))"
proof -
  let ?m = "\<lparr> accuracy = Finite (2 / 3), precision = Finite 1, recall = Finite (1 / 2),
           f1_score = Finite (2 / 3),
           confusion_matrix = \<lparr> true_positive = 1, true_negative = 1,
                                false_positive = 0, false_negative = 1 \<rparr>,
           total_samples = 3, tp = 1, tn = 1, fp = 0, fn = 1 \<rparr>"
  have r: "calculate_metrics [''Yes'', ''Yes'', ''No''] [''Yes'', ''No'', ''No''] ''Yes'' = Inr ?m"
    by code_simp
  have ne: "[''Yes'', ''Yes'', ''No''] \<noteq> []" by simp
  from accuracy_over_all_pairs[OF r ne] have "accuracy ?m = Finite (2 / 3) \<and>
       accuracy ?m = Finite (of_nat (tp ?m + tn ?m) / of_nat (tp ?m + tn ?m + fp ?m + fn ?m))"
    by simp
  with r show ?thesis by blast
qed

text \<open>
  On [(Yes,Yes), (Yes,Maybe)] one pair is valid, so the specification's formula gives
  (1 + 0) / 1 = 1, while the returned accuracy is 1/2: the pair with the label "Maybe"
  is counted in the denominator.
\<close>

theorem accuracy_not_over_valid_pairs:
  "calculate_metrics [''Yes'', ''Yes''] [''Yes'', ''Maybe''] ''Yes'' =
     Inr \<lparr> accuracy = Finite (1 / 2), precision = Finite 1, recall = Finite (1 / 2),
           f1_score = Finite (2 / 3),
           confusion_matrix = \<lparr> true_positive = 1, true_negative = 0,
                                false_positive = 0, false_negative = 0 \<rparr>,
           total_samples = 2, tp = 1, tn = 0, fp = 0, fn = 0 \<rparr> \<and>
   claimed_accuracy [''Yes'', ''Yes''] [''Yes'', ''Maybe''] = Finite 1"
  by code_simp

section \<open>Invalid labels stop the program\<close>

text \<open>
  C2. The program warns about a label outside {"Yes", "No"} and goes on, but
  \<^verbatim>\<open>precision_score\<close> then refuses the data: with the rows (Yes,Yes) and (Maybe,No)
  three distinct labels are present, the target is multiclass, the \<^verbatim>\<open>ValueError\<close> is
  caught by the general handler and the run ends with status 1 and no output file.
\<close>

theorem main_aborts_on_invalid_label:
  "main (single_file_env ''data.csv''
           [(''actual_label'', [''Yes'', ''Maybe'']), (''predicted_label'', [''Yes'', ''No''])])
        [''verify_metrics.py'', ''data.csv''] =
     \<lparr> printed = [Loading ''data.csv'', Loaded 2, InvalidActual {''Maybe''},
                  LabelDistribution 1 0 1 1, Calculating,
                  ErrorMsg (ValueError TargetNotBinary)],
       written = None, exit_status = 1 \<rparr>"
  by code_simp

section \<open>Counts and total_samples\<close>

text \<open>
  C3. For the dataset [(Yes,Yes), (Maybe,No)] the specification expects a result whose
  counts sum to 1, below total_samples = 2. \<^verbatim>\<open>calculate_metrics\<close> returns no result
  there: three distinct labels are present and \<^verbatim>\<open>precision_score\<close> raises
  \<^verbatim>\<open>ValueError\<close>. Where a result is returned the counts do satisfy the bound, with
  equality exactly for valid labels (lemma \<open>counts_total\<close>), and a result is returned
  for every dataset with valid labels (lemma \<open>calculate_metrics_returns_valid\<close>).
\<close>

theorem calculate_metrics_raises_on_invalid_scenario:
  "calculate_metrics [''Yes'', ''Maybe''] [''Yes'', ''No''] ''Yes'' = Inl TargetNotBinary"
  by code_simp

section \<open>Precision and recall\<close>

text \<open>
  C4. Whenever \<^verbatim>\<open>calculate_metrics\<close> returns a result, precision is tp divided by the
  number of pairs predicted "Yes" and recall is tp divided by the number of pairs whose
  actual label is "Yes", each 0 when its denominator is 0; a pair whose other label is
  invalid still counts in these denominators. When every pair has both labels in
  {"Yes", "No"} they are tp / (tp + fp) and tp / (tp + fn).
\<close>

theorem precision_recall_over_all_pairs:
  assumes "calculate_metrics y_true y_pred ''Yes'' = Inr m"
  shows "precision m =
           (if count_list y_pred ''Yes'' = 0 then Finite 0
            else Finite (of_nat (tp m) / of_nat (count_list y_pred ''Yes''))) \<and>
         recall m =
           (if count_list y_true ''Yes'' = 0 then Finite 0
            else Finite (of_nat (tp m) / of_nat (count_list y_true ''Yes''))) \<and>
         (set y_true \<subseteq> {''Yes'', ''No''} \<and> set y_pred \<subseteq> {''Yes'', ''No''} \<longrightarrow>
            precision m =
              (if tp m + fp m = 0 then Finite 0
               else Finite (of_nat (tp m) / of_nat (tp m + fp m))) \<and>
            recall m =
              (if tp m + fn m = 0 then Finite 0
               else Finite (of_nat (tp m) / of_nat (tp m + fn m))))"
proof -
  note D = calculate_metrics_InrD[OF assms]
  have len: "length y_true = length y_pred" by (rule D(1))
  have tp: "tp m = sk_tp_sum y_true y_pred ''Yes''"
    by (simp add: D(3) kept_pairs_count sk_tp_sum_def)
  have p: "precision m =
           (if count_list y_pred ''Yes'' = 0 then Finite 0
            else Finite (of_nat (tp m) / of_nat (count_list y_pred ''Yes'')))"
    by (simp add: D(9) tp prf_divide_def sk_pred_sum_def)
  have r: "recall m =
           (if count_list y_true ''Yes'' = 0 then Finite 0
            else Finite (of_nat (tp m) / of_nat (count_list y_true ''Yes'')))"
    by (simp add: D(10) tp prf_divide_def sk_true_sum_def)
  have "count_list y_pred ''Yes'' = tp m + fp m \<and> count_list y_true ''Yes'' = tp m + fn m"
    if v: "set y_true \<subseteq> {''Yes'', ''No''} \<and> set y_pred \<subseteq> {''Yes'', ''No''}"
  proof -
    have "count_list y_pred ''Yes'' = tp m + fp m"
      using count_right_valid_left[OF len, of "''Yes''" "''No''" "''Yes''"] v
      by (simp add: D(3,5) kept_pairs_count)
    moreover have "count_list y_true ''Yes'' = tp m + fn m"
      using count_left_valid_right[OF len, of "''Yes''" "''No''" "''Yes''"] v
      by (simp add: D(3,4) kept_pairs_count)
    ultimately show ?thesis by simp
  qed
  with p r show ?thesis by presburger
qed

theorem precision_recall_over_all_pairs_witness:
  "\<exists>m. calculate_metrics [''Yes'', ''Yes'', ''No''] [''Yes'', ''No'', ''Yes''] ''Yes'' = Inr m \<and>
       precision m = Finite (of_nat (tp m) / of_nat (tp m + fp m)) \<and>
       recall m = Finite (of_nat (tp m) / of_nat (tp m + fn m)) \<and>
       precision m = Finite (1 / 2) \<and> recall m = Finite (1 / 2)"
proof -
  let ?m = "\<lparr> accuracy = Finite (1 / 3), precision = Finite (1 / 2), recall = Finite (1 / 2),
           f1_score = Finite (1 / 2),
           confusion_matrix = \<lparr> true_positive = 1, true_negative = 0,
                                false_positive = 1, false_negative = 1 \<rparr>,
           total_samples = 3, tp = 1, tn = 0, fp = 1, fn = 1 \<rparr>"
  have r: "calculate_metrics [''Yes'', ''Yes'', ''No''] [''Yes'', ''No'', ''Yes''] ''Yes'' = Inr ?m"
    by code_simp
  from precision_recall_over_all_pairs[OF r] have "precision ?m = Finite (of_nat (tp ?m) / of_nat (tp ?m + fp ?m)) \<and>
       recall ?m = Finite (of_nat (tp ?m) / of_nat (tp ?m + fn ?m)) \<and>
       precision ?m = Finite (1 / 2) \<and> recall ?m = Finite (1 / 2)"
    by simp
  with r show ?thesis by blast
qed

text \<open>
  On [(Yes,Yes), (Yes,Maybe), (Maybe,Yes)] the counts are tp = 1, fp = 0, fn = 0, so the
  specification's formulas give precision = recall = 1, while both returned values are
  1/2.
\<close>

theorem precision_recall_not_over_valid_pairs:
  "calculate_metrics [''Yes'', ''Yes'', ''Maybe''] [''Yes'', ''Maybe'', ''Yes''] ''Yes'' =
     Inr \<lparr> accuracy = Finite (1 / 3), precision = Finite (1 / 2), recall = Finite (1 / 2),
           f1_score = Finite (1 / 2),
           confusion_matrix = \<lparr> true_positive = 1, true_negative = 0,
                                false_positive = 0, false_negative = 0 \<rparr>,
           total_samples = 3, tp = 1, tn = 0, fp = 0, fn = 0 \<rparr> \<and>
   claimed_precision [''Yes'', ''Yes'', ''Maybe''] [''Yes'', ''Maybe'', ''Yes''] = Finite 1 \<and>
   claimed_recall [''Yes'', ''Yes'', ''Maybe''] [''Yes'', ''Maybe'', ''Yes''] = Finite 1"
  by code_simp

section \<open>The F1 score\<close>

text \<open>
  C5. Whenever \<^verbatim>\<open>calculate_metrics\<close> returns a result, f1_score is the quotient
  2 * tp_sum / (true_sum + pred_sum) of the counts for the positive label, and 0 when
  that denominator is 0. This is 2 * P * R / (P + R) for the exact quotients
  P = tp_sum / pred_sum and R = tp_sum / true_sum behind precision and recall (0 when
  P + R = 0), rounded once; it is not the value of that expression evaluated in
  floating point on the returned precision and recall.
\<close>

theorem f1_score_from_counts:
  assumes "calculate_metrics y_true y_pred pos_label = Inr m"
  shows "let t = count_list (zip y_true y_pred) (pos_label, pos_label);
             ts = count_list y_true pos_label;
             ps = count_list y_pred pos_label;
             p = (if ps = 0 then 0 else of_nat t / of_nat ps :: rat);
             r = (if ts = 0 then 0 else of_nat t / of_nat ts :: rat)
         in precision m = Finite p \<and> recall m = Finite r \<and>
            f1_score m =
              (if ts + ps = 0 then Finite 0 else Finite (of_nat (2 * t) / of_nat (ts + ps))) \<and>
            f1_score m = Finite (if p + r = 0 then 0 else 2 * p * r / (p + r))"
proof -
  note D = calculate_metrics_InrD[OF assms]
  let ?t = "sk_tp_sum y_true y_pred pos_label"
  let ?ps = "sk_pred_sum y_pred pos_label"
  let ?ts = "sk_true_sum y_true pos_label"
  let ?p = "if ?ps = 0 then 0 else of_nat ?t / of_nat ?ps :: rat"
  let ?r = "if ?ts = 0 then 0 else of_nat ?t / of_nat ?ts :: rat"
  have le1: "?t \<le> ?ps" by (rule sk_tp_sum_le_pred)
  have le2: "?t \<le> ?ts" by (rule sk_tp_sum_le_true)
  have p: "precision m = Finite ?p" by (simp add: D(9) prf_divide_def)
  have r: "recall m = Finite ?r" by (simp add: D(10) prf_divide_def)
  have f: "f1_score m =
      (if ?ts + ?ps = 0 then Finite 0 else Finite (of_nat (2 * ?t) / of_nat (?ts + ?ps)))"
    by (simp add: D(11) prf_divide_def)
  have h: "f1_score m = Finite (if ?p + ?r = 0 then 0 else 2 * ?p * ?r / (?p + ?r))"
  proof (cases "?t = 0")
    case True
    then show ?thesis by (simp add: D(11) prf_divide_def)
  next
    case False
    then have pos: "0 < ?t" "0 < ?ps" "0 < ?ts" using le1 le2 by simp_all
    let ?P = "of_nat ?t / of_nat ?ps :: rat"
    let ?R = "of_nat ?t / of_nat ?ts :: rat"
    have "0 < ?P" "0 < ?R" using pos by simp_all
    then have nz: "?P + ?R \<noteq> 0" by simp
    have "2 * ?P * ?R / (?P + ?R) = 2 * of_nat ?t / (of_nat ?ts + of_nat ?ps)"
      using pos by (intro harmonic_mean) simp_all
    with nz pos show ?thesis by (simp add: D(11) prf_divide_def)
  qed
  from p r f h show ?thesis
    by (simp only: Let_def sk_tp_sum_def sk_pred_sum_def sk_true_sum_def)
qed

theorem f1_score_from_counts_witness:
  "\<exists>m. calculate_metrics [''Yes'', ''Yes'', ''Yes'', ''Yes'', ''Yes'']
                            [''Yes'', ''No'', ''No'', ''No'', ''No''] ''Yes'' = Inr m \<and>
       precision m = Finite 1 \<and> recall m = Finite (1 / 5) \<and>
       f1_score m = Finite (2 / 6) \<and>
       f1_score m = Finite (2 * 1 * (1 / 5) / (1 + 1 / 5))"
proof -
  let ?m = "\<lparr> accuracy = Finite (1 / 5), precision = Finite 1, recall = Finite (1 / 5),
           f1_score = Finite (1 / 3),
           confusion_matrix = \<lparr> true_positive = 1, true_negative = 0,
                                false_positive = 0, false_negative = 4 \<rparr>,
           total_samples = 5, tp = 1, tn = 0, fp = 0, fn = 4 \<rparr>"
  have r: "calculate_metrics [''Yes'', ''Yes'', ''Yes'', ''Yes'', ''Yes'']
                            [''Yes'', ''No'', ''No'', ''No'', ''No''] ''Yes'' = Inr ?m"
    by code_simp
  from f1_score_from_counts[OF r] have "precision ?m = Finite 1 \<and> recall ?m = Finite (1 / 5) \<and>
       f1_score ?m = Finite (2 / 6) \<and>
       f1_score ?m = Finite (2 * 1 * (1 / 5) / (1 + 1 / 5))"
    by simp
  with r show ?thesis by blast
qed

text \<open>
  On [(Yes,Yes), (Yes,No), (Yes,No), (Yes,No), (Yes,No)] the returned values are
  precision = 1.0, recall = 0.2 and f1_score = 0.3333333333333333, the double nearest
  to 1/3. Evaluating 2 * precision * recall / (precision + recall) on the returned
  doubles gives 0.33333333333333337, the next double: 1.0 + 0.2 is rounded before the
  division.
\<close>

theorem f1_score_differs_from_returned_doubles:
  "calculate_metrics [''Yes'', ''Yes'', ''Yes'', ''Yes'', ''Yes'']
                     [''Yes'', ''No'', ''No'', ''No'', ''No''] ''Yes'' =
     Inr \<lparr> accuracy = Finite (1 / 5), precision = Finite 1, recall = Finite (1 / 5),
           f1_score = Finite (1 / 3),
           confusion_matrix = \<lparr> true_positive = 1, true_negative = 0,
                                false_positive = 0, false_negative = 4 \<rparr>,
           total_samples = 5, tp = 1, tn = 0, fp = 0, fn = 4 \<rparr> \<and>
   round_to_double (1 / 3) = 6004799503160661 / 18014398509481984 \<and>
   claimed_f1 (round_to_double 1) (round_to_double (1 / 5)) =
     6004799503160662 / 18014398509481984"
proof -
  have a: "calculate_metrics [''Yes'', ''Yes'', ''Yes'', ''Yes'', ''Yes'']
                     [''Yes'', ''No'', ''No'', ''No'', ''No''] ''Yes'' =
     Inr \<lparr> accuracy = Finite (1 / 5), precision = Finite 1, recall = Finite (1 / 5),
           f1_score = Finite (1 / 3),
           confusion_matrix = \<lparr> true_positive = 1, true_negative = 0,
                                false_positive = 0, false_negative = 4 \<rparr>,
           total_samples = 5, tp = 1, tn = 0, fp = 0, fn = 4 \<rparr>"
    by code_simp
  have b: "round_to_double (1 / 3) = 6004799503160661 / 18014398509481984"
    by code_simp
  have c: "claimed_f1 (round_to_double 1) (round_to_double (1 / 5)) =
     6004799503160662 / 18014398509481984"
    by code_simp
  from a b c show ?thesis by (intro conjI)
qed

section \<open>The concrete scenario\<close>

text \<open>
  C6. On the dataset [(Yes,Yes), (Yes,No), (No,Yes), (No,No), (No,No)]
  \<^verbatim>\<open>calculate_metrics\<close> returns tp = 1, fn = 1, fp = 1, tn = 2, total_samples = 5,
  accuracy = 3/5, precision = 1/2, recall = 1/2 and f1_score = 1/2.
\<close>

theorem calculate_metrics_scenario:
  "calculate_metrics [''Yes'', ''Yes'', ''No'', ''No'', ''No'']
                     [''Yes'', ''No'', ''Yes'', ''No'', ''No''] ''Yes'' =
     Inr \<lparr> accuracy = Finite (3 / 5),
           precision = Finite (1 / 2),
           recall = Finite (1 / 2),
           f1_score = Finite (1 / 2),
           confusion_matrix =
             \<lparr> true_positive = 1, true_negative = 2,
               false_positive = 1, false_negative = 1 \<rparr>,
           total_samples = 5, tp = 1, tn = 2, fp = 1, fn = 1 \<rparr>"
  by code_simp

section \<open>The output file\<close>

text \<open>
  C7. The output path is the input path with every occurrence of ".csv" replaced by
  "_python_metrics.json". An input path without ".csv" is left unchanged: for
  "data.txt" the metrics are written to "data.txt" itself, over the input.
\<close>

theorem output_file_overwrites_input:
  "output_file_of ''data.txt'' = ''data.txt'' \<and>
   written (main (single_file_env ''data.txt''
           [(''actual_label'', [''Yes'', ''No'']), (''predicted_label'', [''Yes'', ''No''])])
        [''verify_metrics.py'', ''data.txt'']) =
     Some (''data.txt'',
       \<lparr> accuracy = Finite 1, precision = Finite 1, recall = Finite 1, f1_score = Finite 1,
         confusion_matrix = \<lparr> true_positive = 1, true_negative = 1,
                              false_positive = 0, false_negative = 0 \<rparr>,
         total_samples = 2, tp = 1, tn = 1, fp = 0, fn = 0 \<rparr>)"
  by code_simp

section \<open>Exit status\<close>

text \<open>
  C8. The program ends with status 1 when no input path is given (after the usage
  text), when the input file is not found (after the error line), when a required
  column is absent (after the lines naming the missing and the available columns), and
  on any other exception while loading, computing or writing; it ends with status 0
  when all steps succeed, and then the metrics are written to the output file.
\<close>

theorem main_exit_status:
  "(length argv < 2 \<longrightarrow>
      main e argv = \<lparr> printed = [Usage], written = None, exit_status = 1 \<rparr>) \<and>
   (2 \<le> length argv \<and> read_csv e (argv ! 1) = Inl FileNotFoundError \<longrightarrow>
      main e argv = \<lparr> printed = [Loading (argv ! 1), FileNotFoundMsg (argv ! 1)],
                       written = None, exit_status = 1 \<rparr>) \<and>
   (2 \<le> length argv \<and> read_csv e (argv ! 1) = Inr df \<and>
    \<not> {''actual_label'', ''predicted_label''} \<subseteq> set (columns df) \<longrightarrow>
      main e argv =
        \<lparr> printed = [Loading (argv ! 1), Loaded (len_df df),
             MissingColumns (join '', '' (filter (\<lambda>col. col \<notin> set (columns df))
                [''actual_label'', ''predicted_label''])),
             AvailableColumns (join '', '' (columns df))],
          written = None, exit_status = 1 \<rparr>) \<and>
   (2 \<le> length argv \<and> read_csv e (argv ! 1) = Inl ex \<longrightarrow>
      exit_status (main e argv) = 1 \<and> written (main e argv) = None) \<and>
   (2 \<le> length argv \<and> read_csv e (argv ! 1) = Inr df \<and>
    map_of df ''actual_label'' = Some y_true \<and> map_of df ''predicted_label'' = Some y_pred \<and>
    calculate_metrics y_true y_pred ''Yes'' = Inl err \<longrightarrow>
      exit_status (main e argv) = 1 \<and> written (main e argv) = None) \<and>
   (2 \<le> length argv \<and> read_csv e (argv ! 1) = Inr df \<and>
    map_of df ''actual_label'' = Some y_true \<and> map_of df ''predicted_label'' = Some y_pred \<and>
    calculate_metrics y_true y_pred ''Yes'' = Inr m \<and>
    open_w e (output_file_of (argv ! 1)) = Some ex \<longrightarrow>
      exit_status (main e argv) = 1 \<and> written (main e argv) = None) \<and>
   (2 \<le> length argv \<and> read_csv e (argv ! 1) = Inr df \<and>
    map_of df ''actual_label'' = Some y_true \<and> map_of df ''predicted_label'' = Some y_pred \<and>
    calculate_metrics y_true y_pred ''Yes'' = Inr m \<and>
    open_w e (output_file_of (argv ! 1)) = None \<longrightarrow>
      exit_status (main e argv) = 0 \<and>
      written (main e argv) = Some (output_file_of (argv ! 1), m))"
proof (intro conjI impI)
  assume "length argv < 2"
  then show "main e argv = \<lparr> printed = [Usage], written = None, exit_status = 1 \<rparr>"
    by (simp add: main_def Let_def)
next
  assume "2 \<le> length argv \<and> read_csv e (argv ! 1) = Inl FileNotFoundError"
  then show "main e argv = \<lparr> printed = [Loading (argv ! 1), FileNotFoundMsg (argv ! 1)],
                       written = None, exit_status = 1 \<rparr>"
    by (simp add: main_def handle_exception_def Let_def)
next
  assume "2 \<le> length argv \<and> read_csv e (argv ! 1) = Inr df \<and>
    \<not> {''actual_label'', ''predicted_label''} \<subseteq> set (columns df)"
  then show "main e argv =
        \<lparr> printed = [Loading (argv ! 1), Loaded (len_df df),
             MissingColumns (join '', '' (filter (\<lambda>col. col \<notin> set (columns df))
                [''actual_label'', ''predicted_label''])),
             AvailableColumns (join '', '' (columns df))],
          written = None, exit_status = 1 \<rparr>"
    by (simp add: main_def verify_csv_format_missing Let_def)
next
  assume a: "2 \<le> length argv \<and> read_csv e (argv ! 1) = Inl ex"
  then show "exit_status (main e argv) = 1"
    by (cases ex) (simp_all add: main_def handle_exception_def Let_def)
  from a show "written (main e argv) = None"
    by (cases ex) (simp_all add: main_def handle_exception_def Let_def)
next
  assume a: "2 \<le> length argv \<and> read_csv e (argv ! 1) = Inr df \<and>
    map_of df ''actual_label'' = Some y_true \<and> map_of df ''predicted_label'' = Some y_pred \<and>
    calculate_metrics y_true y_pred ''Yes'' = Inl err"
  then have v: "verify_csv_format df = ([], True)" by (simp add: verify_csv_format_ok)
  from a v show "exit_status (main e argv) = 1"
    by (simp add: main_def handle_exception_def Let_def)
  from a v show "written (main e argv) = None"
    by (simp add: main_def handle_exception_def Let_def)
next
  assume a: "2 \<le> length argv \<and> read_csv e (argv ! 1) = Inr df \<and>
    map_of df ''actual_label'' = Some y_true \<and> map_of df ''predicted_label'' = Some y_pred \<and>
    calculate_metrics y_true y_pred ''Yes'' = Inr m \<and>
    open_w e (output_file_of (argv ! 1)) = Some ex"
  then have v: "verify_csv_format df = ([], True)" by (simp add: verify_csv_format_ok)
  from a v show "exit_status (main e argv) = 1"
    by (cases ex) (simp_all add: main_def handle_exception_def Let_def)
  from a v show "written (main e argv) = None"
    by (cases ex) (simp_all add: main_def handle_exception_def Let_def)
next
  assume a: "2 \<le> length argv \<and> read_csv e (argv ! 1) = Inr df \<and>
    map_of df ''actual_label'' = Some y_true \<and> map_of df ''predicted_label'' = Some y_pred \<and>
    calculate_metrics y_true y_pred ''Yes'' = Inr m \<and>
    open_w e (output_file_of (argv ! 1)) = None"
  then have v: "verify_csv_format df = ([], True)" by (simp add: verify_csv_format_ok)
  from a v show "exit_status (main e argv) = 0"
    by (simp add: main_def Let_def)
  from a v show "written (main e argv) = Some (output_file_of (argv ! 1), m)"
    by (simp add: main_def Let_def)
qed

theorem main_exit_status_witness:
  "main (single_file_env ''data.csv'' []) [''verify_metrics.py''] =
     \<lparr> printed = [Usage], written = None, exit_status = 1 \<rparr> \<and>
   main (single_file_env ''data.csv'' []) [''verify_metrics.py'', ''other.csv''] =
     \<lparr> printed = [Loading ''other.csv'', FileNotFoundMsg ''other.csv''],
       written = None, exit_status = 1 \<rparr> \<and>
   main (single_file_env ''data.csv'' [(''actual_label'', [''Yes'']), (''predicted'', [''Yes''])])
        [''verify_metrics.py'', ''data.csv''] =
     \<lparr> printed = [Loading ''data.csv'', Loaded 1, MissingColumns ''predicted_label'',
                  AvailableColumns ''actual_label, predicted''],
       written = None, exit_status = 1 \<rparr> \<and>
   exit_status (main \<lparr> read_csv = (\<lambda>f. Inl OtherError), open_w = (\<lambda>f. None) \<rparr>
        [''verify_metrics.py'', ''data.csv'']) = 1 \<and>
   exit_status (main (single_file_env ''data.csv''
          [(''actual_label'', [''Maybe'']), (''predicted_label'', [''Yes''])])
        [''verify_metrics.py'', ''data.csv'']) = 1 \<and>
   exit_status (main \<lparr> read_csv = (\<lambda>f. Inr [(''actual_label'', [''Yes'']),
                                              (''predicted_label'', [''Yes''])]),
                       open_w = (\<lambda>f. Some OtherError) \<rparr>
        [''verify_metrics.py'', ''data.csv'']) = 1 \<and>
   exit_status (main (single_file_env ''data.csv''
          [(''actual_label'', [''Yes'']), (''predicted_label'', [''Yes''])])
        [''verify_metrics.py'', ''data.csv'']) = 0"
proof -
  let ?argv1 = "[''verify_metrics.py'']"
  let ?argv = "[''verify_metrics.py'', ''data.csv'']"
  let ?argv' = "[''verify_metrics.py'', ''other.csv'']"
  let ?e0 = "single_file_env ''data.csv'' []"
  let ?df3 = "[(''actual_label'', [''Yes'']), (''predicted'', [''Yes''])]"
  let ?e4 = "\<lparr> read_csv = (\<lambda>f. Inl OtherError), open_w = (\<lambda>f. None) \<rparr>"
  let ?df5 = "[(''actual_label'', [''Maybe'']), (''predicted_label'', [''Yes''])]"
  let ?df6 = "[(''actual_label'', [''Yes'']), (''predicted_label'', [''Yes''])]"
  let ?e6 = "\<lparr> read_csv = (\<lambda>f. Inr ?df6), open_w = (\<lambda>f. Some OtherError) \<rparr>"
  let ?m = "\<lparr> accuracy = Finite 1, precision = Finite 1, recall = Finite 1,
           f1_score = Finite 1,
           confusion_matrix = \<lparr> true_positive = 1, true_negative = 0,
                                false_positive = 0, false_negative = 0 \<rparr>,
           total_samples = 1, tp = 1, tn = 0, fp = 0, fn = 0 \<rparr>"
  have bad: "calculate_metrics [''Maybe''] [''Yes''] ''Yes'' = Inl NoLabelInYTrue" by code_simp
  have good: "calculate_metrics [''Yes''] [''Yes''] ''Yes'' = Inr ?m" by code_simp
  have 1: "main ?e0 ?argv1 = \<lparr> printed = [Usage], written = None, exit_status = 1 \<rparr>"
    using main_exit_status[of ?argv1 ?e0] by simp
  have 2: "main ?e0 ?argv' = \<lparr> printed = [Loading ''other.csv'', FileNotFoundMsg ''other.csv''],
       written = None, exit_status = 1 \<rparr>"
    using main_exit_status[of ?argv' ?e0] by (simp add: single_file_env_def)
  have 3: "main (single_file_env ''data.csv'' ?df3) ?argv =
     \<lparr> printed = [Loading ''data.csv'', Loaded 1, MissingColumns ''predicted_label'',
                  AvailableColumns ''actual_label, predicted''],
       written = None, exit_status = 1 \<rparr>"
    using main_exit_status[of ?argv "single_file_env ''data.csv'' ?df3" ?df3]
    by (simp add: single_file_env_def columns_def len_df_def)
  have 4: "exit_status (main ?e4 ?argv) = 1"
    using main_exit_status[of ?argv ?e4 _ OtherError] by simp
  have 5: "exit_status (main (single_file_env ''data.csv'' ?df5) ?argv) = 1"
    using main_exit_status[of ?argv "single_file_env ''data.csv'' ?df5" ?df5 _ "[''Maybe'']" "[''Yes'']"
        NoLabelInYTrue] bad
    by (simp add: single_file_env_def)
  have 6: "exit_status (main ?e6 ?argv) = 1"
    using main_exit_status[of ?argv ?e6 ?df6 OtherError "[''Yes'']" "[''Yes'']" _ ?m] good
    by simp
  have 7: "exit_status (main (single_file_env ''data.csv'' ?df6) ?argv) = 0"
    using main_exit_status[of ?argv "single_file_env ''data.csv'' ?df6" ?df6 _ "[''Yes'']" "[''Yes'']" _ ?m] good
    by (simp add: single_file_env_def)
  from 1 2 3 4 5 6 7 show ?thesis by blast
qed

section \<open>Order of the pairs\<close>

text \<open>
  C9. Permuting the pairs of a dataset does not change what \<^verbatim>\<open>calculate_metrics\<close>
  returns, be it a result or an error.
\<close>

theorem calculate_metrics_permutation:
  assumes "mset ds' = mset ds"
  shows "calculate_metrics (map fst ds') (map snd ds') pos_label =
         calculate_metrics (map fst ds) (map snd ds) pos_label"
  unfolding calculate_metrics_def sk_precision_score_def sk_recall_score_def sk_f1_score_def
    sk_confusion_matrix_perm[OF assms] sk_accuracy_score_perm[OF assms]
    check_set_wise_labels_perm[OF assms] sums_perm[OF assms] length_map
    mset_eq_length[OF assms]
  by (rule refl)

theorem calculate_metrics_permutation_witness:
  "mset [(''No'', ''Yes''), (''Yes'', ''Yes''), (''Yes'', ''No'')] =
     mset [(''Yes'', ''Yes''), (''Yes'', ''No''), (''No'', ''Yes'')] \<and>
   calculate_metrics [''No'', ''Yes'', ''Yes''] [''Yes'', ''Yes'', ''No''] ''Yes'' =
   calculate_metrics [''Yes'', ''Yes'', ''No''] [''Yes'', ''No'', ''Yes''] ''Yes''"
proof -
  have p: "mset [(''No'', ''Yes''), (''Yes'', ''Yes''), (''Yes'', ''No'')] =
     mset [(''Yes'', ''Yes''), (''Yes'', ''No''), (''No'', ''Yes'')]"
    by simp
  from calculate_metrics_permutation[OF p, of "''Yes''"] p show ?thesis by simp
qed

section \<open>The negative class\<close>

text \<open>
  C10. The negative class is the string "No" whatever \<^verbatim>\<open>pos_label\<close> is: for every
  positive label other than "No" and every dataset for which a result is returned, tp
  counts the pairs (pos_label, pos_label), fn the pairs (pos_label, "No"), fp the pairs
  ("No", pos_label) and tn the pairs ("No", "No"); the four counts together are the
  pairs with both labels in {pos_label, "No"}.
\<close>

theorem negative_class_fixed:
  assumes "calculate_metrics y_true y_pred pos_label = Inr m" and "pos_label \<noteq> ''No''"
  shows "tp m = count_list (zip y_true y_pred) (pos_label, pos_label) \<and>
         fn m = count_list (zip y_true y_pred) (pos_label, ''No'') \<and>
         fp m = count_list (zip y_true y_pred) (''No'', pos_label) \<and>
         tn m = count_list (zip y_true y_pred) (''No'', ''No'') \<and>
         tp m + fn m + fp m + tn m =
           length (filter (\<lambda>(a, b). a \<in> {pos_label, ''No''} \<and> b \<in> {pos_label, ''No''})
                     (zip y_true y_pred))"
  using assms counts_sum[OF assms]
  by (simp add: calculate_metrics_InrD kept_pairs_count)

theorem negative_class_fixed_witness:
  "\<exists>m. calculate_metrics [''Lock'', ''No'', ''Lock''] [''Lock'', ''Lock'', ''No''] ''Lock'' = Inr m \<and>
       ''Lock'' \<noteq> ''No'' \<and> tp m = 1 \<and> fn m = 1 \<and> fp m = 1 \<and> tn m = 0"
proof -
  let ?m = "\<lparr> accuracy = Finite (1 / 3), precision = Finite (1 / 2), recall = Finite (1 / 2),
           f1_score = Finite (1 / 2),
           confusion_matrix = \<lparr> true_positive = 1, true_negative = 0,
                                false_positive = 1, false_negative = 1 \<rparr>,
           total_samples = 3, tp = 1, tn = 0, fp = 1, fn = 1 \<rparr>"
  have r: "calculate_metrics [''Lock'', ''No'', ''Lock''] [''Lock'', ''Lock'', ''No''] ''Lock'' = Inr ?m"
    by code_simp
  have ne: "''Lock'' \<noteq> ''No''" by simp
  from negative_class_fixed[OF r ne] have "tp ?m = 1 \<and> fn ?m = 1 \<and> fp ?m = 1 \<and> tn ?m = 0" by simp
  with r ne show ?thesis by blast
qed

text \<open>
  With pos_label = "No" the label list is ["No", "No"] and the dictionary maps "No" to
  index 1 only: the pair (No,No) is counted in tn and tp stays 0.
\<close>

theorem pos_label_No_counts:
  "calculate_metrics [''No''] [''No''] ''No'' =
     Inr \<lparr> accuracy = Finite 1, precision = Finite 1, recall = Finite 1,
           f1_score = Finite 1,
           confusion_matrix = \<lparr> true_positive = 0, true_negative = 1,
                                false_positive = 0, false_negative = 0 \<rparr>,
           total_samples = 1, tp = 0, tn = 1, fp = 0, fn = 0 \<rparr> \<and>
   count_list (zip [''No''] [''No'']) (''No'', ''No'') = 1"
  by code_simp

end
